theory Spec2Isabelle
  imports Main "HOL-Library.Word"
begin

section \<open>debug.h: leveled, location-tagged diagnostics\<close>

text \<open>
  The header \<^verbatim>\<open>debug.h\<close> defines two globals (\<^verbatim>\<open>debug_stream\<close>,
  \<^verbatim>\<open>debug_level\<close>) and a family of function-like macros. A macro receives its
  arguments as unevaluated expressions, so each macro is embedded as a function whose
  arguments are expressions: state transformers that yield a value and the state after
  their side effects. The macro body decides whether and when an argument is evaluated.
  The calls into the C library (\<^verbatim>\<open>fprintf\<close>, \<^verbatim>\<open>fflush\<close>) are recorded, in order,
  in a trace; what a recorded \<^verbatim>\<open>fprintf\<close> puts on its stream is computed from the
  trace by a model of the conversions \<^verbatim>\<open>%s\<close>, \<^verbatim>\<open>%d\<close> and \<^verbatim>\<open>%%\<close>.
\<close>

subsection \<open>Streams, library calls and program state\<close>

text \<open>A \<^verbatim>\<open>FILE *\<close> is \<open>Some f\<close>, or \<open>None\<close> for \<^verbatim>\<open>NULL\<close>.\<close>

datatype FILE = stdin | stdout | stderr | Stream nat

text \<open>A variadic argument of \<^verbatim>\<open>fprintf\<close>: a C string or an \<^verbatim>\<open>int\<close>.\<close>

datatype arg = string_arg string | int_arg "32 word"

datatype io = Fprintf FILE string "arg list" | Fflush FILE

text \<open>
  The globals of lines 19--29, the trace of library calls made so far, and the rest of
  the program's variables (\<open>user\<close>), which argument expressions may read and write.
\<close>

record 'u world =
  debug_stream :: "FILE option"
  debug_level :: "32 word"
  trace :: "io list"
  user :: 'u

type_synonym ('a, 'u) expr = "'u world \<Rightarrow> 'a \<times> 'u world"

text \<open>An expression without side effects, and the expression \<^verbatim>\<open>debug_stream\<close>.\<close>

definition pure :: "'a \<Rightarrow> ('a, 'u) expr" where
  "pure v = (\<lambda>w. (v, w))"

definition read_debug_stream :: "(FILE option, 'u) expr" where
  "read_debug_stream = (\<lambda>w. (debug_stream w, w))"

definition fprintf :: "FILE \<Rightarrow> string \<Rightarrow> arg list \<Rightarrow> 'u world \<Rightarrow> 'u world" where
  "fprintf f fmt args w = w\<lparr>trace := trace w @ [Fprintf f fmt args]\<rparr>"

definition fflush :: "FILE \<Rightarrow> 'u world \<Rightarrow> 'u world" where
  "fflush f w = w\<lparr>trace := trace w @ [Fflush f]\<rparr>"

subsection \<open>Build-time switches and process start\<close>

text \<open>
  \<^verbatim>\<open>DEBUG\<close> is defined or not; \<^verbatim>\<open>DEBUG_LEVEL\<close> and \<^verbatim>\<open>DEBUG_MAX_LENGTH\<close> may be
  supplied by the build (\<open>None\<close>: not defined on the command line).
\<close>

record build =
  DEBUG :: bool
  DEBUG_LEVEL :: "int option"
  DEBUG_MAX_LENGTH_given :: "nat option"

text \<open>Lines 73--75: the guidance value, 60 unless the build supplies one.\<close>

definition DEBUG_MAX_LENGTH :: "build \<Rightarrow> nat" where
  "DEBUG_MAX_LENGTH b = (case DEBUG_MAX_LENGTH_given b of None \<Rightarrow> 60 | Some n \<Rightarrow> n)"

text \<open>
  Lines 19--29: \<^verbatim>\<open>debug_stream\<close> starts as \<^verbatim>\<open>NULL\<close>; \<^verbatim>\<open>debug_level\<close> starts as
  \<^verbatim>\<open>(unsigned int)DEBUG_LEVEL\<close>, or 1. The cast to \<^verbatim>\<open>unsigned int\<close> reduces
  modulo \<open>2^32\<close>, which is \<open>word_of_int\<close>.
\<close>

definition process_start :: "build \<Rightarrow> 'u \<Rightarrow> 'u world" where
  "process_start b u =
     \<lparr>debug_stream = None,
      debug_level = (case DEBUG_LEVEL b of Some n \<Rightarrow> word_of_int n | None \<Rightarrow> 1),
      trace = [],
      user = u\<rparr>"

subsection \<open>Location prefix\<close>

text \<open>
  The call site: \<^verbatim>\<open>__FILE__\<close>, \<^verbatim>\<open>__LINE__\<close> and what \<^verbatim>\<open>FUNCTION\<close> expands to
  there (lines 48--58).
\<close>

record call_site =
  src_FILE :: string
  src_LINE :: nat
  FUNCTION :: string

definition digit_char :: "nat \<Rightarrow> char" where
  "digit_char d = ''0123456789'' ! d"

text \<open>
  Lines 166--167: \<^verbatim>\<open>debug_quote(__LINE__)\<close> expands \<^verbatim>\<open>__LINE__\<close> and then
  stringifies it; the preprocessor writes the line number as a decimal constant.
\<close>

fun debug_quote :: "nat \<Rightarrow> string" where
  "debug_quote n =
     (if n < 10 then [digit_char n] else debug_quote (n div 10) @ [digit_char (n mod 10)])"

declare debug_quote.simps [simp del]

text \<open>Line 77. The adjacent string literals are concatenated by the compiler.\<close>

definition LINE_LOCATION :: "call_site \<Rightarrow> string" where
  "LINE_LOCATION cs = src_FILE cs @ '' '' @ debug_quote (src_LINE cs) @ '' ''"

definition newline :: string where
  "newline = [CHR 0x0A]"

subsection \<open>Destination check and level gate\<close>

definition DEBUG_DEFAULT_STREAM :: FILE where
  "DEBUG_DEFAULT_STREAM = stderr"

text \<open>Lines 98--99.\<close>

definition DEBUG_CHECK_FILE :: "FILE option \<Rightarrow> FILE" where
  "DEBUG_CHECK_FILE file = (case file of Some f \<Rightarrow> f | None \<Rightarrow> DEBUG_DEFAULT_STREAM)"

text \<open>
  Lines 108--113 (the GCC branch; the other branch lacks a semicolon and does not
  compile). \<^verbatim>\<open>DEBUG_LEVEL_TEMP\<close> has the type of the level expression. For an
  \<^verbatim>\<open>int\<close> level, the comparison with the \<^verbatim>\<open>unsigned int debug_level\<close> converts the
  level to \<^verbatim>\<open>unsigned int\<close> (same bits, read unsigned), while the comparison with
  the constant 0 is signed. For an \<^verbatim>\<open>unsigned int\<close> level both are unsigned.
\<close>

datatype level = int_level "32 word" | unsigned_level "32 word"

fun DEBUG_CHECK_LEVEL :: "level \<Rightarrow> 32 word \<Rightarrow> bool" where
  "DEBUG_CHECK_LEVEL (int_level DEBUG_LEVEL_TEMP) threshold =
     (DEBUG_LEVEL_TEMP \<le> threshold \<and> 0 <s DEBUG_LEVEL_TEMP)"
| "DEBUG_CHECK_LEVEL (unsigned_level DEBUG_LEVEL_TEMP) threshold =
     (DEBUG_LEVEL_TEMP \<le> threshold \<and> 0 < DEBUG_LEVEL_TEMP)"

text \<open>The number a level stands for in C.\<close>

fun level_value :: "level \<Rightarrow> int" where
  "level_value (int_level l) = sint l"
| "level_value (unsigned_level l) = uint l"

subsection \<open>The macros of enabled mode, and their empty definitions\<close>

text \<open>
  Lines 156--164. Defined only when \<^verbatim>\<open>DEBUG\<close> is. The level expression is evaluated
  once, then the gate is checked; only inside the guarded block are the destination and
  the string evaluated.
\<close>

definition fdebugl ::
  "call_site \<Rightarrow> (level, 'u) expr \<Rightarrow> (FILE option, 'u) expr \<Rightarrow> (string, 'u) expr \<Rightarrow>
   'u world \<Rightarrow> 'u world" where
  "fdebugl cs level file str w =
     (let (DEBUG_LEVEL_TEMP, w1) = level w in
      if DEBUG_CHECK_LEVEL DEBUG_LEVEL_TEMP (debug_level w1) then
        (let (DEBUG_FILE, w2) = file w1;
             DEBUG_FILE = DEBUG_CHECK_FILE DEBUG_FILE;
             (s, w3) = str w2;
             w4 = fprintf (DEBUG_CHECK_FILE (Some DEBUG_FILE))
                    (LINE_LOCATION cs @ ''%s: %s'' @ newline) [string_arg (FUNCTION cs), string_arg s] w3
         in fflush DEBUG_FILE w4)
      else w1)"

text \<open>
  Lines 214--224 and 238. \<^verbatim>\<open>__VA_ARGS__\<close> is the format and its arguments; it is
  evaluated in the second \<^verbatim>\<open>fprintf\<close>, after the prefix has been written.
\<close>

definition fdebuglf ::
  "build \<Rightarrow> call_site \<Rightarrow> (level, 'u) expr \<Rightarrow> (FILE option, 'u) expr \<Rightarrow>
   (string \<times> arg list, 'u) expr \<Rightarrow> 'u world \<Rightarrow> 'u world" where
  "fdebuglf b cs level file va w =
     (if DEBUG b then
        (let (DEBUG_LEVEL_TEMP, w1) = level w in
         if DEBUG_CHECK_LEVEL DEBUG_LEVEL_TEMP (debug_level w1) then
           (let (DEBUG_FILE, w2) = file w1;
                DEBUG_FILE = DEBUG_CHECK_FILE DEBUG_FILE;
                w3 = fprintf DEBUG_FILE (LINE_LOCATION cs @ ''%s: '') [string_arg (FUNCTION cs)] w2;
                ((fmt, args), w4) = va w3;
                w5 = fprintf DEBUG_FILE fmt args w4;
                w6 = fprintf DEBUG_FILE newline [] w5
            in fflush DEBUG_FILE w6)
         else w1)
      else w)"

text \<open>Lines 127--130 and 232.\<close>

definition debug :: "build \<Rightarrow> call_site \<Rightarrow> (string, 'u) expr \<Rightarrow> 'u world \<Rightarrow> 'u world" where
  "debug b cs str w =
     (if DEBUG b then fdebugl cs (pure (int_level 1)) read_debug_stream str w else w)"

text \<open>Lines 136--139 and 235.\<close>

definition fdebug ::
  "build \<Rightarrow> call_site \<Rightarrow> (FILE option, 'u) expr \<Rightarrow> (string, 'u) expr \<Rightarrow>
   'u world \<Rightarrow> 'u world" where
  "fdebug b cs file str w =
     (if DEBUG b then fdebugl cs (pure (int_level 1)) file str w else w)"

text \<open>Lines 144--147 and 233.\<close>

definition debugl ::
  "build \<Rightarrow> call_site \<Rightarrow> (level, 'u) expr \<Rightarrow> (string, 'u) expr \<Rightarrow> 'u world \<Rightarrow> 'u world" where
  "debugl b cs level str w =
     (if DEBUG b then fdebugl cs level read_debug_stream str w else w)"

text \<open>Lines 180--183 and 234.\<close>

definition debugf ::
  "build \<Rightarrow> call_site \<Rightarrow> (string \<times> arg list, 'u) expr \<Rightarrow> 'u world \<Rightarrow> 'u world" where
  "debugf b cs va w =
     (if DEBUG b then fdebuglf b cs (pure (int_level 1)) read_debug_stream va w else w)"

text \<open>Lines 192--195 and 236.\<close>

definition fdebugf ::
  "build \<Rightarrow> call_site \<Rightarrow> (FILE option, 'u) expr \<Rightarrow> (string \<times> arg list, 'u) expr \<Rightarrow>
   'u world \<Rightarrow> 'u world" where
  "fdebugf b cs file va w =
     (if DEBUG b then fdebuglf b cs (pure (int_level 1)) file va w else w)"

text \<open>Lines 200--203 and 237.\<close>

definition debuglf ::
  "build \<Rightarrow> call_site \<Rightarrow> (level, 'u) expr \<Rightarrow> (string \<times> arg list, 'u) expr \<Rightarrow>
   'u world \<Rightarrow> 'u world" where
  "debuglf b cs level va w =
     (if DEBUG b then fdebuglf b cs level read_debug_stream va w else w)"

subsection \<open>What the recorded calls put on a stream\<close>

text \<open>
  The C library's \<^verbatim>\<open>fprintf\<close>, for the conversions \<^verbatim>\<open>%s\<close>, \<^verbatim>\<open>%d\<close> and \<^verbatim>\<open>%%\<close>.
  The result is the text written and the arguments not yet consumed; \<open>None\<close> stands for
  undefined behaviour (a conversion without a matching argument, an incomplete
  conversion) and for conversions outside this fragment. Surplus arguments are ignored,
  as in C.
\<close>

definition show_int :: "32 word \<Rightarrow> string" where
  "show_int i = (if sint i < 0 then ''-'' @ debug_quote (nat (- sint i))
                 else debug_quote (nat (sint i)))"

fun convert :: "string \<Rightarrow> arg list \<Rightarrow> (string \<times> arg list) option" where
  "convert [] args = Some ([], args)"
| "convert [c] args = (if c = CHR ''%'' then None else Some ([c], args))"
| "convert (c # d # fmt) args =
     (if c \<noteq> CHR ''%'' then
        (case convert (d # fmt) args of
           None \<Rightarrow> None
         | Some (out, rest) \<Rightarrow> Some (c # out, rest))
      else if d = CHR ''%'' then
        (case convert fmt args of
           None \<Rightarrow> None
         | Some (out, rest) \<Rightarrow> Some (CHR ''%'' # out, rest))
      else if d = CHR ''s'' then
        (case args of
           string_arg s # args' \<Rightarrow>
             (case convert fmt args' of
                None \<Rightarrow> None
              | Some (out, rest) \<Rightarrow> Some (s @ out, rest))
         | _ \<Rightarrow> None)
      else if d = CHR ''d'' then
        (case args of
           int_arg i # args' \<Rightarrow>
             (case convert fmt args' of
                None \<Rightarrow> None
              | Some (out, rest) \<Rightarrow> Some (show_int i @ out, rest))
         | _ \<Rightarrow> None)
      else None)"

definition printed :: "string \<Rightarrow> arg list \<Rightarrow> string option" where
  "printed fmt args = map_option fst (convert fmt args)"

text \<open>The bytes that a sequence of library calls sends to stream \<open>f\<close>.\<close>

fun stream_text :: "FILE \<Rightarrow> io list \<Rightarrow> string option" where
  "stream_text f [] = Some []"
| "stream_text f (Fflush g # es) = stream_text f es"
| "stream_text f (Fprintf g fmt args # es) =
     (if g = f then
        (case printed fmt args of
           None \<Rightarrow> None
         | Some s \<Rightarrow> map_option ((@) s) (stream_text f es))
      else stream_text f es)"

text \<open>
  Whether stream \<open>f\<close> holds text written after its last flush: the calls are replayed
  in order, a write to \<open>f\<close> sets the mark and a flush of \<open>f\<close> clears it.
\<close>

fun unflushed_step :: "FILE \<Rightarrow> io \<Rightarrow> bool \<Rightarrow> bool" where
  "unflushed_step f (Fprintf g fmt args) mark = (g = f \<or> mark)"
| "unflushed_step f (Fflush g) mark = (g \<noteq> f \<and> mark)"

definition unflushed :: "FILE \<Rightarrow> io list \<Rightarrow> bool" where
  "unflushed f es = fold (unflushed_step f) es False"

text \<open>The stream a library call addresses, and the calls a statement added.\<close>

fun io_stream :: "io \<Rightarrow> FILE" where
  "io_stream (Fprintf g fmt args) = g"
| "io_stream (Fflush g) = g"

definition emitted :: "'u world \<Rightarrow> 'u world \<Rightarrow> io list" where
  "emitted w w' = drop (length (trace w)) (trace w')"

text \<open>Whether a sequence of library calls contains an \<^verbatim>\<open>fprintf\<close> to stream \<open>f\<close>.\<close>

fun writes_to :: "FILE \<Rightarrow> io list \<Rightarrow> bool" where
  "writes_to f [] = False"
| "writes_to f (Fprintf g fmt args # es) = (g = f \<or> writes_to f es)"
| "writes_to f (Fflush g # es) = writes_to f es"

text \<open>The process-wide configuration, and an expression that leaves it as it is.\<close>

definition config :: "'u world \<Rightarrow> 32 word \<times> FILE option" where
  "config w = (debug_level w, debug_stream w)"

definition keeps_config :: "('a, 'u) expr \<Rightarrow> bool" where
  "keeps_config e = (\<forall>w. config (snd (e w)) = config w)"

text \<open>The number a string of decimal digits denotes, most significant digit first.\<close>

definition digit_value :: "char \<Rightarrow> nat" where
  "digit_value c = of_char c - 48"

definition decimal_value :: "string \<Rightarrow> nat" where
  "decimal_value ds = foldl (\<lambda>acc c. 10 * acc + digit_value c) 0 ds"

subsection \<open>Destination resolution as the specification words it\<close>

text \<open>
  Section 4.4 of the specification: an explicit destination that is present and non-null
  is returned; otherwise the process-wide default destination, which is
  \<^verbatim>\<open>debug_stream\<close> and, when that is unset, the standard error stream.
\<close>

definition spec_resolve :: "FILE option \<Rightarrow> FILE option \<Rightarrow> FILE" where
  "spec_resolve explicit default_destination =
     (case explicit of
        Some f \<Rightarrow> f
      | None \<Rightarrow> (case default_destination of Some g \<Rightarrow> g | None \<Rightarrow> stderr))"

subsection \<open>Concrete builds, call sites and expressions\<close>

definition debug_build :: build where
  "debug_build = \<lparr>DEBUG = True, DEBUG_LEVEL = None, DEBUG_MAX_LENGTH_given = None\<rparr>"

definition release_build :: build where
  "release_build = \<lparr>DEBUG = False, DEBUG_LEVEL = None, DEBUG_MAX_LENGTH_given = None\<rparr>"

definition main_42_run :: call_site where
  "main_42_run = \<lparr>src_FILE = ''main'', src_LINE = 42, FUNCTION = ''run''\<rparr>"

text \<open>
  An argument expression with a side effect, as in \<^verbatim>\<open>debug(msg[counter++])\<close>: it
  yields \<open>v\<close> and increments a counter kept in the program's own state.
\<close>

definition counting :: "'a \<Rightarrow> ('a, nat) expr" where
  "counting v = (\<lambda>w. (v, w\<lparr>user := Suc (user w)\<rparr>))"


text \<open>A state with the given globals in which no library call has been made yet.\<close>

definition fresh :: "FILE option \<Rightarrow> 32 word \<Rightarrow> nat world" where
  "fresh ds t = \<lparr>debug_stream = ds, debug_level = t, trace = [], user = 0\<rparr>"

section \<open>Properties\<close>

subsection \<open>The level gate\<close>

lemma uint_of_positive_sint:
  fixes l :: "32 word"
  assumes "0 < sint l"
  shows "uint l = sint l"
proof -
  have "sint l < 2 ^ 32"
    using sint_lt [of l] by simp
  with assms have "take_bit 32 (sint l) = sint l"
    by (simp add: take_bit_int_eq_self)
  then show ?thesis
    using uint_sint [of l] by simp
qed

lemma gate_int:
  "DEBUG_CHECK_LEVEL (int_level l) t \<longleftrightarrow> 0 < sint l \<and> sint l \<le> uint t"
proof (cases "0 < sint l")
  case True
  then show ?thesis
    by (simp add: word_sless_alt word_le_def uint_of_positive_sint)
next
  case False
  then show ?thesis
    by (simp add: word_sless_alt)
qed

lemma gate_unsigned:
  "DEBUG_CHECK_LEVEL (unsigned_level l) t \<longleftrightarrow> 0 < uint l \<and> uint l \<le> uint t"
  by (auto simp: word_le_def word_less_def)

lemma gate_iff:
  "DEBUG_CHECK_LEVEL L T \<longleftrightarrow> 0 < level_value L \<and> level_value L \<le> uint T"
  by (cases L) (simp_all only: gate_int gate_unsigned level_value.simps)

lemma gate_level_1: "DEBUG_CHECK_LEVEL (int_level 1) T \<longleftrightarrow> 0 < uint T"
  by (simp add: gate_iff) arith

subsection \<open>Unfolding the macros\<close>

lemmas macro_defs =
  debug_def fdebug_def debugl_def debugf_def fdebugf_def debuglf_def

lemma DEBUG_CHECK_FILE_Some: "DEBUG_CHECK_FILE (Some f) = f"
  by (simp add: DEBUG_CHECK_FILE_def)

lemma DEBUG_CHECK_FILE_NULL: "DEBUG_CHECK_FILE None = stderr"
  by (simp add: DEBUG_CHECK_FILE_def DEBUG_DEFAULT_STREAM_def)

lemmas body_defs =
  fdebugl_def fdebuglf_def fprintf_def fflush_def Let_def DEBUG_CHECK_FILE_Some

lemma pure_apply: "pure v w = (v, w)"
  by (simp add: pure_def)

lemma read_debug_stream_apply: "read_debug_stream w = (debug_stream w, w)"
  by (simp add: read_debug_stream_def)

lemma fdebugl_suppressed:
  assumes "level w = (l, w1)" and "\<not> DEBUG_CHECK_LEVEL l (debug_level w1)"
  shows "fdebugl cs level file str w = w1"
  using assms by (simp add: fdebugl_def)

lemma fdebuglf_suppressed:
  assumes "DEBUG b" and "level w = (l, w1)" and "\<not> DEBUG_CHECK_LEVEL l (debug_level w1)"
  shows "fdebuglf b cs level file va w = w1"
  using assms by (simp add: fdebuglf_def)

lemma fdebugl_passed:
  assumes "level w = (l, w1)" and "DEBUG_CHECK_LEVEL l (debug_level w1)"
    and "file w1 = (f, w2)" and "str w2 = (s, w3)"
  shows "fdebugl cs level file str w =
           w3\<lparr>trace := trace w3 @
             [Fprintf (DEBUG_CHECK_FILE f) (LINE_LOCATION cs @ ''%s: %s'' @ newline)
                [string_arg (FUNCTION cs), string_arg s],
              Fflush (DEBUG_CHECK_FILE f)]\<rparr>"
  using assms by (simp add: body_defs)

lemma fdebuglf_passed:
  assumes "DEBUG b" and "level w = (l, w1)" and "DEBUG_CHECK_LEVEL l (debug_level w1)"
    and "file w1 = (f, w2)"
    and "va (w2\<lparr>trace := trace w2 @
            [Fprintf (DEBUG_CHECK_FILE f) (LINE_LOCATION cs @ ''%s: '')
               [string_arg (FUNCTION cs)]]\<rparr>) = ((fmt, args), w4)"
  shows "fdebuglf b cs level file va w =
           w4\<lparr>trace := trace w4 @
             [Fprintf (DEBUG_CHECK_FILE f) fmt args,
              Fprintf (DEBUG_CHECK_FILE f) newline [],
              Fflush (DEBUG_CHECK_FILE f)]\<rparr>"
  using assms by (simp add: body_defs)

lemma fdebugl_pure:
  "fdebugl cs (pure L) (pure f) (pure s) w =
     (if DEBUG_CHECK_LEVEL L (debug_level w)
      then w\<lparr>trace := trace w @
             [Fprintf (DEBUG_CHECK_FILE f) (LINE_LOCATION cs @ ''%s: %s'' @ newline)
                [string_arg (FUNCTION cs), string_arg s],
              Fflush (DEBUG_CHECK_FILE f)]\<rparr>
      else w)"
  by (simp add: fdebugl_passed [OF pure_apply _ pure_apply pure_apply]
      fdebugl_suppressed [OF pure_apply])

lemma fdebuglf_pure:
  "DEBUG b \<Longrightarrow> fdebuglf b cs (pure L) (pure f) (pure (fmt, args)) w =
     (if DEBUG_CHECK_LEVEL L (debug_level w)
      then w\<lparr>trace := trace w @
             [Fprintf (DEBUG_CHECK_FILE f) (LINE_LOCATION cs @ ''%s: '')
                [string_arg (FUNCTION cs)],
              Fprintf (DEBUG_CHECK_FILE f) fmt args,
              Fprintf (DEBUG_CHECK_FILE f) newline [],
              Fflush (DEBUG_CHECK_FILE f)]\<rparr>
      else w)"
  by (simp add: fdebuglf_passed [OF _ pure_apply _ pure_apply pure_apply]
      fdebuglf_suppressed [OF _ pure_apply])

lemma fdebugl_read_debug_stream:
  "fdebugl cs (pure L) read_debug_stream str w =
   fdebugl cs (pure L) (pure (debug_stream w)) str w"
  by (simp add: fdebugl_def pure_def read_debug_stream_def)

lemma fdebuglf_read_debug_stream:
  "fdebuglf b cs (pure L) read_debug_stream va w =
   fdebuglf b cs (pure L) (pure (debug_stream w)) va w"
  by (simp add: fdebuglf_def pure_def read_debug_stream_def)

lemma fdebugl_resolved:
  "fdebugl cs level (pure (Some (DEBUG_CHECK_FILE f))) str w = fdebugl cs level (pure f) str w"
  by (simp add: fdebugl_def pure_def Let_def split_def DEBUG_CHECK_FILE_Some)

lemma fdebuglf_resolved:
  "fdebuglf b cs level (pure (Some (DEBUG_CHECK_FILE f))) va w = fdebuglf b cs level (pure f) va w"
  by (simp add: fdebuglf_def pure_def Let_def split_def DEBUG_CHECK_FILE_Some)

lemma emitted_self: "emitted w w = []"
  by (simp add: emitted_def)

lemma emitted_append: "emitted w (w\<lparr>trace := trace w @ es\<rparr>) = es"
  by (simp add: emitted_def)

lemma unflushed_after_flush: "\<not> unflushed f (es @ [Fflush f])"
  by (simp add: unflushed_def)

subsection \<open>Expressions that keep the configuration\<close>



lemma keeps_config_counting: "keeps_config (counting v)"
  by (simp add: keeps_config_def counting_def config_def)





subsection \<open>What \<^verbatim>\<open>fprintf\<close> writes\<close>

text \<open>
  Text without \<^verbatim>\<open>%\<close> is copied and consumes no argument. A format may be split
  after any character other than \<^verbatim>\<open>%\<close>, and a conversion that succeeds consumes a
  prefix of the arguments and does not look at the rest.
\<close>

lemma convert_plain:
  "CHR ''%'' \<notin> set fmt \<Longrightarrow> convert fmt args = Some (fmt, args)"
  by (induction fmt args rule: convert.induct) auto

lemma convert_append:
  assumes "a = [] \<or> last a \<noteq> CHR ''%''"
  shows "convert (a @ b) args =
    (case convert a args of
       None \<Rightarrow> None
     | Some (s, r) \<Rightarrow>
         (case convert b r of None \<Rightarrow> None | Some (t, r') \<Rightarrow> Some (s @ t, r')))"
  using assms
proof (induction a args rule: convert.induct)
  case (1 args)
  then show ?case by (simp split: option.splits)
next
  case (2 c args)
  then show ?case by (cases b) (simp_all split: option.splits)
next
  case (3 c d fmt args)
  from "3.prems" have tail: "last (d # fmt) \<noteq> CHR ''%''"
    by simp
  show ?case
  proof (cases "c \<noteq> CHR ''%''")
    case True
    from "3.IH"(1) [OF True] tail True show ?thesis
      by (simp split: option.splits)
  next
    case pc: False
    show ?thesis
    proof (cases "d = CHR ''%''")
      case True
      with tail have "fmt = [] \<or> last fmt \<noteq> CHR ''%''"
        by (simp split: if_splits)
      from "3.IH"(2) [OF pc True this] pc True show ?thesis
        by (simp split: option.splits)
    next
      case nd: False
      have fm: "fmt = [] \<or> last fmt \<noteq> CHR ''%''"
        using tail by (simp split: if_splits)
      show ?thesis
      proof (cases args)
        case Nil
        with pc nd show ?thesis by simp
      next
        case (Cons x args')
        show ?thesis
        proof (cases x)
          case (string_arg v)
          show ?thesis
          proof (cases "d = CHR ''s''")
            case True
            from "3.IH"(3) [OF pc nd True Cons string_arg fm] pc nd True Cons string_arg
            show ?thesis
              by (simp split: option.splits)
          next
            case False
            with pc nd Cons string_arg show ?thesis by simp
          qed
        next
          case (int_arg v)
          show ?thesis
          proof (cases "d = CHR ''d''")
            case True
            then have ns: "d \<noteq> CHR ''s''" by simp
            from "3.IH"(4) [OF pc nd ns True Cons int_arg fm] pc nd True Cons int_arg
            show ?thesis
              by (simp split: option.splits)
          next
            case False
            with pc nd Cons int_arg show ?thesis by simp
          qed
        qed
      qed
    qed
  qed
qed

lemma convert_frame:
  "convert fmt args = Some (s, r) \<Longrightarrow>
   \<exists>used. args = used @ r \<and> (\<forall>extra. convert fmt (used @ extra) = Some (s, extra))"
proof (induction fmt args arbitrary: s r rule: convert.induct)
  case (1 args)
  then show ?case by simp
next
  case (2 c args)
  then show ?case by (simp split: if_splits)
next
  case (3 c d fmt args)
  show ?case
  proof (cases "c \<noteq> CHR ''%''")
    case True
    with "3.prems" obtain out where
      c: "convert (d # fmt) args = Some (out, r)" and s: "s = c # out"
      by (auto split: option.splits)
    from "3.IH"(1) [OF True c] obtain used where
      u: "args = used @ r" "\<forall>extra. convert (d # fmt) (used @ extra) = Some (out, extra)"
      by blast
    show ?thesis
      by (rule exI [of _ used]) (use True u s in simp)
  next
    case pc: False
    show ?thesis
    proof (cases "d = CHR ''%''")
      case True
      with pc "3.prems" obtain out where
        c: "convert fmt args = Some (out, r)" and s: "s = CHR ''%'' # out"
        by (auto split: option.splits)
      from "3.IH"(2) [OF pc True c] obtain used where
        u: "args = used @ r" "\<forall>extra. convert fmt (used @ extra) = Some (out, extra)"
        by blast
      show ?thesis
        by (rule exI [of _ used]) (use pc True u s in simp)
    next
      case nd: False
      show ?thesis
      proof (cases "d = CHR ''s''")
        case True
        with pc nd "3.prems" obtain x args' out where
          a: "args = string_arg x # args'" and c: "convert fmt args' = Some (out, r)" and s: "s = x @ out"
          by (auto split: option.splits list.splits arg.splits)
        from "3.IH"(3) [OF pc nd True a refl c] obtain used where
          u: "args' = used @ r" "\<forall>extra. convert fmt (used @ extra) = Some (out, extra)"
          by blast
        show ?thesis
          by (rule exI [of _ "string_arg x # used"]) (use pc nd True a u s in simp)
      next
        case ns: False
        with pc nd "3.prems" obtain i args' out where
          d: "d = CHR ''d''" and
          a: "args = int_arg i # args'" and c: "convert fmt args' = Some (out, r)" and s: "s = show_int i @ out"
          by (auto split: option.splits list.splits arg.splits if_splits)
        from "3.IH"(4) [OF pc nd ns d a refl c] obtain used where
          u: "args' = used @ r" "\<forall>extra. convert fmt (used @ extra) = Some (out, extra)"
          by blast
        show ?thesis
          by (rule exI [of _ "int_arg i # used"]) (use pc nd ns d a u s in simp)
      qed
    qed
  qed
qed

lemma printed_plain: "CHR ''%'' \<notin> set X \<Longrightarrow> printed X args = Some X"
  by (simp add: printed_def convert_plain)

lemma printed_percent_s: "printed ''%s'' [string_arg X] = Some X"
  by (simp add: printed_def)

lemma printed_newline: "printed newline [] = Some newline"
  by (simp add: printed_def newline_def)

lemma printed_line_plain:
  assumes "CHR ''%'' \<notin> set P"
  shows "printed (P @ ''%s: %s'' @ newline) [string_arg fn, string_arg X]
           = Some (P @ fn @ '': '' @ X @ newline)"
proof -
  have "P = [] \<or> last P \<noteq> CHR ''%''"
    using assms by (cases P rule: rev_cases) auto
  then show ?thesis
    using assms by (simp add: printed_def convert_append convert_plain newline_def)
qed

lemma printed_prefix_plain:
  assumes "CHR ''%'' \<notin> set P"
  shows "printed (P @ ''%s: '') [string_arg fn] = Some (P @ fn @ '': '')"
proof -
  have "P = [] \<or> last P \<noteq> CHR ''%''"
    using assms by (cases P rule: rev_cases) auto
  then show ?thesis
    using assms by (simp add: printed_def convert_append convert_plain)
qed

lemma printed_line_split:
  assumes "P = [] \<or> last P \<noteq> CHR ''%''"
  shows "printed (P @ ''%s: %s'' @ newline) [string_arg fn, string_arg X] =
    (case printed (P @ ''%s: '') [string_arg fn] of
       None \<Rightarrow> None
     | Some s \<Rightarrow> Some (s @ X @ newline))"
proof (cases "convert P [string_arg fn]")
  case None
  show ?thesis
  proof (cases "convert P [string_arg fn, string_arg X]")
    case n2: None
    with None assms show ?thesis
      by (simp add: printed_def convert_append)
  next
    case (Some a)
    then obtain p r where c: "convert P [string_arg fn, string_arg X] = Some (p, r)"
      by (cases a) auto
    from convert_frame [OF c] obtain used where
      u: "[string_arg fn, string_arg X] = used @ r"
         "\<forall>extra. convert P (used @ extra) = Some (p, extra)"
      by blast
    have "r = []"
    proof (cases used)
      case Nil
      with u(2) have "convert P [string_arg fn] = Some (p, [string_arg fn])"
        by (metis append_Nil)
      with None show ?thesis by simp
    next
      case (Cons x xs)
      show ?thesis
      proof (cases xs)
        case Nil
        with Cons u(1) have "used = [string_arg fn]" by simp
        with u(2) have "convert P [string_arg fn] = Some (p, [])"
          by (metis append_Nil2)
        with None show ?thesis by simp
      next
        case c2: (Cons y ys)
        with Cons u(1) show ?thesis by simp
      qed
    qed
    with c None assms show ?thesis
      by (simp add: printed_def convert_append)
  qed
next
  case (Some a)
  then obtain p r where c: "convert P [string_arg fn] = Some (p, r)"
    by (cases a) auto
  from convert_frame [OF c] obtain used where
    u: "[string_arg fn] = used @ r"
       "\<forall>extra. convert P (used @ extra) = Some (p, extra)"
    by blast
  show ?thesis
  proof (cases used)
    case Nil
    with u have "r = [string_arg fn]"
      and "convert P [string_arg fn, string_arg X] = Some (p, [string_arg fn, string_arg X])"
      by (simp, metis append_Nil)
    with c assms show ?thesis
      by (simp add: printed_def convert_append newline_def)
  next
    case (Cons x xs)
    with u(1) have r: "r = []" and us: "used = [string_arg fn]" by simp_all
    from u(2) us have "convert P ([string_arg fn] @ [string_arg X]) = Some (p, [string_arg X])"
      by blast
    with c r assms show ?thesis
      by (simp add: printed_def convert_append newline_def)
  qed
qed

lemma stream_text_append:
  "stream_text f (a @ b) =
     (case stream_text f a of
        None \<Rightarrow> None
      | Some s \<Rightarrow> map_option ((@) s) (stream_text f b))"
  by (induction f a rule: stream_text.induct)
     (auto split: option.splits simp: map_option_case)

lemma stream_text_fdebugl_events:
  "stream_text g [Fprintf d fmt args, Fflush d] =
     (if d = g then printed fmt args else Some [])"
  by (simp split: option.splits)

lemma stream_text_fdebuglf_events:
  "stream_text g [Fprintf d pre pargs, Fprintf d fmt args, Fprintf d newline [], Fflush d] =
     (if d = g then
        (case printed pre pargs of
           None \<Rightarrow> None
         | Some p \<Rightarrow> (case printed fmt args of None \<Rightarrow> None | Some m \<Rightarrow> Some (p @ m @ newline)))
      else Some [])"
  by (simp add: printed_newline split: option.splits)

subsection \<open>The location prefix\<close>

text \<open>
  The stringified line number consists of decimal digits and denotes the line number;
  the prefix ends in a space, and contains a \<^verbatim>\<open>%\<close> only if the file name does.
\<close>

lemma digit_char_not_percent: "d < 10 \<Longrightarrow> CHR ''%'' \<noteq> digit_char d"
proof -
  assume "d < 10"
  then have "d \<in> {0, 1, 2, 3, 4, 5, 6, 7, 8, 9}" by auto
  then show ?thesis
    by (auto simp: digit_char_def)
qed

lemma digit_value_digit_char: "d < 10 \<Longrightarrow> digit_value (digit_char d) = d"
proof -
  assume "d < 10"
  then have "d \<in> {0, 1, 2, 3, 4, 5, 6, 7, 8, 9}" by auto
  then show ?thesis
    by (auto simp: digit_char_def digit_value_def)
qed

lemma decimal_value_snoc: "decimal_value (ds @ [c]) = 10 * decimal_value ds + digit_value c"
  by (simp add: decimal_value_def)

lemma decimal_value_debug_quote: "decimal_value (debug_quote n) = n"
proof (induction n rule: debug_quote.induct)
  case (1 n)
  show ?case
  proof (cases "n < 10")
    case True
    then show ?thesis
      using decimal_value_snoc [of "[]" "digit_char n"]
      by (simp add: debug_quote.simps [of n] digit_value_digit_char decimal_value_def)
  next
    case False
    with 1 show ?thesis
      by (simp add: debug_quote.simps [of n] decimal_value_snoc digit_value_digit_char)
  qed
qed

lemma debug_quote_no_percent: "CHR ''%'' \<notin> set (debug_quote n)"
proof (induction n rule: debug_quote.induct)
  case (1 n)
  show ?case
  proof (cases "n < 10")
    case True
    then show ?thesis
      by (simp add: debug_quote.simps [of n] digit_char_not_percent)
  next
    case False
    with 1 show ?thesis
      by (simp add: debug_quote.simps [of n] digit_char_not_percent)
  qed
qed

lemma LINE_LOCATION_last: "LINE_LOCATION cs \<noteq> [] \<and> last (LINE_LOCATION cs) \<noteq> CHR ''%''"
  by (simp add: LINE_LOCATION_def)

lemma LINE_LOCATION_plain:
  "CHR ''%'' \<notin> set (src_FILE cs) \<Longrightarrow> CHR ''%'' \<notin> set (LINE_LOCATION cs)"
  by (simp add: LINE_LOCATION_def debug_quote_no_percent)

lemma fdebugl_line_shape:
  assumes "CHR ''%'' \<notin> set (src_FILE cs)"
  shows "printed (LINE_LOCATION cs @ ''%s: %s'' @ newline)
           [string_arg (FUNCTION cs), string_arg msg] =
         Some (src_FILE cs @ '' '' @ debug_quote (src_LINE cs) @ '' '' @ FUNCTION cs @
               '': '' @ msg @ newline)"
  using printed_line_plain [OF LINE_LOCATION_plain [OF assms]]
  by (simp add: LINE_LOCATION_def)

lemma fdebuglf_prefix_shape:
  assumes "CHR ''%'' \<notin> set (src_FILE cs)"
  shows "printed (LINE_LOCATION cs @ ''%s: '') [string_arg (FUNCTION cs)] =
         Some (src_FILE cs @ '' '' @ debug_quote (src_LINE cs) @ '' '' @ FUNCTION cs @ '': '')"
  using printed_prefix_plain [OF LINE_LOCATION_plain [OF assms]]
  by (simp add: LINE_LOCATION_def)

lemma line_texts_agree:
  assumes "printed fmt args = Some X"
  shows "stream_text g
           [Fprintf d (LINE_LOCATION cs @ ''%s: '') [string_arg (FUNCTION cs)],
            Fprintf d fmt args, Fprintf d newline [], Fflush d] =
         stream_text g
           [Fprintf d (LINE_LOCATION cs @ ''%s: %s'' @ newline)
              [string_arg (FUNCTION cs), string_arg X],
            Fflush d]"
proof -
  have "LINE_LOCATION cs = [] \<or> last (LINE_LOCATION cs) \<noteq> CHR ''%''"
    using LINE_LOCATION_last [of cs] by simp
  from printed_line_split [OF this] assms show ?thesis
    by (simp only: stream_text_fdebugl_events stream_text_fdebuglf_events)
       (simp split: option.splits)
qed

text \<open>
  For a file name without \<^verbatim>\<open>%\<close>, the line that \<^verbatim>\<open>fdebugl\<close> emits is
  \<^verbatim>\<open><file> <line> <function>: <message>\<close> followed by a newline, whatever the length
  of the message.
\<close>

lemma line_shape_without_percent:
  assumes "CHR ''%'' \<notin> set (src_FILE cs)" and "DEBUG_CHECK_LEVEL L (debug_level w)"
  shows "stream_text (DEBUG_CHECK_FILE f)
           (emitted w (fdebugl cs (pure L) (pure f) (pure msg) w)) =
         Some (src_FILE cs @ '' '' @ debug_quote (src_LINE cs) @ '' '' @ FUNCTION cs @
               '': '' @ msg @ newline)"
  using assms(2)
  by (simp only: fdebugl_pure emitted_append stream_text_fdebugl_events
      fdebugl_line_shape [OF assms(1)] simp_thms if_True)

lemma formatted_line_shape_without_percent:
  assumes "DEBUG b" and "CHR ''%'' \<notin> set (src_FILE cs)"
    and "DEBUG_CHECK_LEVEL L (debug_level w)" and "printed fmt args = Some msg"
  shows "stream_text (DEBUG_CHECK_FILE f)
           (emitted w (fdebuglf b cs (pure L) (pure f) (pure (fmt, args)) w)) =
         Some (src_FILE cs @ '' '' @ debug_quote (src_LINE cs) @ '' '' @ FUNCTION cs @
               '': '' @ msg @ newline)"
  using assms(1,3,4)
  by (simp add: fdebuglf_pure emitted_append stream_text_fdebuglf_events
      fdebuglf_prefix_shape [OF assms(2)] printed_newline)

subsection \<open>Evaluating concrete calls\<close>

lemmas run_defs =
  macro_defs fdebugl_def fdebuglf_def fprintf_def fflush_def Let_def pure_def
  read_debug_stream_def counting_def DEBUG_CHECK_FILE_def DEBUG_DEFAULT_STREAM_def
  LINE_LOCATION_def debug_build_def release_build_def main_42_run_def fresh_def
  emitted_def printed_def newline_def show_int_def debug_quote.simps digit_char_def
  word_sless_alt word_le_def

text \<open>
  The end-to-end scenarios of the specification: (A) threshold 1, \<^verbatim>\<open>debug("hello")\<close>
  in file \<^verbatim>\<open>main\<close>, line 42, function \<^verbatim>\<open>run\<close>; (B) threshold 2, level 5;
  (C) threshold 3, level 2, format \<^verbatim>\<open>count=%d\<close> with argument 7; (D) an explicit
  destination that differs from \<^verbatim>\<open>debug_stream\<close>.
\<close>

lemma scenario_A:
  "trace (debug debug_build main_42_run (pure ''hello'') (fresh None 1)) =
     [Fprintf stderr (''main 42 %s: %s'' @ newline) [string_arg ''run'', string_arg ''hello''],
      Fflush stderr] \<and>
   stream_text stderr (trace (debug debug_build main_42_run (pure ''hello'') (fresh None 1)))
     = Some (''main 42 run: hello'' @ newline)"
  by (simp add: run_defs)

lemma scenario_B:
  "debugl debug_build main_42_run (pure (int_level 5)) (pure ''hello'') (fresh None 2)
     = fresh None 2"
  by (simp add: run_defs)

lemma scenario_C:
  "stream_text stderr
     (trace (debuglf debug_build main_42_run (pure (int_level 2))
               (pure (''count=%d'', [int_arg 7])) (fresh None 3)))
     = Some (''main 42 run: count=7'' @ newline)"
  by (simp add: run_defs)

lemma scenario_D:
  "stream_text (Stream 7)
     (trace (fdebug debug_build main_42_run (pure (Some (Stream 7))) (pure ''hello'')
               (fresh (Some (Stream 3)) 1)))
     = Some (''main 42 run: hello'' @ newline) \<and>
   stream_text (Stream 3)
     (trace (fdebug debug_build main_42_run (pure (Some (Stream 7))) (pure ''hello'')
               (fresh (Some (Stream 3)) 1)))
     = Some []"
  by (simp add: run_defs)

subsection \<open>Disabled mode\<close>

text \<open>
  Claim C1. When \<^verbatim>\<open>DEBUG\<close> is not defined, each of the seven entry points
  \<^verbatim>\<open>debug\<close>, \<^verbatim>\<open>debugl\<close>, \<^verbatim>\<open>debugf\<close>, \<^verbatim>\<open>fdebug\<close>, \<^verbatim>\<open>fdebugf\<close>,
  \<^verbatim>\<open>debuglf\<close>, \<^verbatim>\<open>fdebuglf\<close> leaves the whole program state as it was, whatever
  side effects its argument expressions would have: none of them is evaluated.
\<close>

theorem disabled_mode_is_no_op:
  assumes "\<not> DEBUG b"
  shows "debug b cs str w = w \<and> debugl b cs level str w = w \<and> debugf b cs va w = w \<and>
         fdebug b cs file str w = w \<and> fdebugf b cs file va w = w \<and>
         debuglf b cs level va w = w \<and> fdebuglf b cs level file va w = w"
  using assms by (simp add: macro_defs fdebuglf_def)

theorem disabled_mode_is_no_op_witness:
  "\<not> DEBUG release_build \<and>
   user (debug release_build main_42_run (counting ''x'') (fresh None 1)) = 0 \<and>
   fdebuglf release_build main_42_run (counting (int_level 1)) (counting None)
     (counting (''%d'', [int_arg 7])) (fresh None 1) = fresh None 1"
  using disabled_mode_is_no_op [of release_build main_42_run "counting ''x''"
      "fresh None 1" "counting (int_level 1)" "counting (''%d'', [int_arg 7])"
      "counting None"]
  by (simp add: release_build_def fresh_def)

subsection \<open>Which calls emit\<close>

text \<open>
  Claim C2. In enabled mode a call with level \<open>L\<close>, made when the threshold
  \<^verbatim>\<open>debug_level\<close> is \<open>T\<close>, emits if and only if \<open>0 < L\<close> and \<open>L \<le> T\<close>, for
  \<^verbatim>\<open>int\<close> and for \<^verbatim>\<open>unsigned int\<close> levels: when the level is in range the call
  makes an \<^verbatim>\<open>fprintf\<close> to the resolved destination (the library calls it makes are
  exactly the write or writes of the line and the flush), and otherwise it makes no
  library call at all. So a zero or negative level never emits, and with \<open>T = 0\<close>
  nothing emits. The entry points of fixed level emit if and only if \<open>1 \<le> T\<close>.
\<close>

theorem emission_iff_level_within_threshold:
  assumes "DEBUG b"
  shows "writes_to (DEBUG_CHECK_FILE f)
           (emitted w (fdebuglf b cs (pure L) (pure f) (pure (fmt, args)) w)) =
           (0 < level_value L \<and> level_value L \<le> uint (debug_level w)) \<and>
         writes_to (DEBUG_CHECK_FILE f)
           (emitted w (fdebugl cs (pure L) (pure f) (pure s) w)) =
           (0 < level_value L \<and> level_value L \<le> uint (debug_level w)) \<and>
         writes_to (DEBUG_CHECK_FILE (debug_stream w))
           (emitted w (debuglf b cs (pure L) (pure (fmt, args)) w)) =
           (0 < level_value L \<and> level_value L \<le> uint (debug_level w)) \<and>
         writes_to (DEBUG_CHECK_FILE (debug_stream w))
           (emitted w (debugl b cs (pure L) (pure s) w)) =
           (0 < level_value L \<and> level_value L \<le> uint (debug_level w)) \<and>
         writes_to (DEBUG_CHECK_FILE (debug_stream w)) (emitted w (debug b cs (pure s) w)) =
           (1 \<le> uint (debug_level w)) \<and>
         writes_to (DEBUG_CHECK_FILE f) (emitted w (fdebug b cs (pure f) (pure s) w)) =
           (1 \<le> uint (debug_level w)) \<and>
         writes_to (DEBUG_CHECK_FILE (debug_stream w))
           (emitted w (debugf b cs (pure (fmt, args)) w)) = (1 \<le> uint (debug_level w)) \<and>
         writes_to (DEBUG_CHECK_FILE f)
           (emitted w (fdebugf b cs (pure f) (pure (fmt, args)) w)) =
           (1 \<le> uint (debug_level w)) \<and>
         emitted w (fdebuglf b cs (pure L) (pure f) (pure (fmt, args)) w) =
           (if 0 < level_value L \<and> level_value L \<le> uint (debug_level w)
            then [Fprintf (DEBUG_CHECK_FILE f) (LINE_LOCATION cs @ ''%s: '')
                    [string_arg (FUNCTION cs)],
                  Fprintf (DEBUG_CHECK_FILE f) fmt args,
                  Fprintf (DEBUG_CHECK_FILE f) newline [],
                  Fflush (DEBUG_CHECK_FILE f)]
            else []) \<and>
         emitted w (fdebugl cs (pure L) (pure f) (pure s) w) =
           (if 0 < level_value L \<and> level_value L \<le> uint (debug_level w)
            then [Fprintf (DEBUG_CHECK_FILE f) (LINE_LOCATION cs @ ''%s: %s'' @ newline)
                    [string_arg (FUNCTION cs), string_arg s],
                  Fflush (DEBUG_CHECK_FILE f)]
            else []) \<and>
         (emitted w (debuglf b cs (pure L) (pure (fmt, args)) w) = []) =
           (\<not> (0 < level_value L \<and> level_value L \<le> uint (debug_level w))) \<and>
         (emitted w (debugl b cs (pure L) (pure s) w) = []) =
           (\<not> (0 < level_value L \<and> level_value L \<le> uint (debug_level w))) \<and>
         (emitted w (debug b cs (pure s) w) = []) = (\<not> 1 \<le> uint (debug_level w)) \<and>
         (emitted w (fdebug b cs (pure f) (pure s) w) = []) = (\<not> 1 \<le> uint (debug_level w)) \<and>
         (emitted w (debugf b cs (pure (fmt, args)) w) = []) =
           (\<not> 1 \<le> uint (debug_level w)) \<and>
         (emitted w (fdebugf b cs (pure f) (pure (fmt, args)) w) = []) =
           (\<not> 1 \<le> uint (debug_level w))"
  using assms
  by (simp add: macro_defs fdebugl_read_debug_stream fdebuglf_read_debug_stream
      fdebugl_pure fdebuglf_pure emitted_self emitted_append gate_iff
      del: DEBUG_CHECK_LEVEL.simps)

theorem emission_iff_level_within_threshold_witness:
  "DEBUG debug_build \<and>
   level_value (int_level 2) = 2 \<and> uint (debug_level (fresh None 3)) = 3 \<and>
   writes_to stderr
     (emitted (fresh None 3)
        (fdebuglf debug_build main_42_run (pure (int_level 2)) (pure None)
           (pure (''count=%d'', [int_arg 7])) (fresh None 3))) \<and>
   emitted (fresh None 3)
     (fdebuglf debug_build main_42_run (pure (int_level 2)) (pure None)
        (pure (''count=%d'', [int_arg 7])) (fresh None 3)) =
     [Fprintf stderr ''main 42 %s: '' [string_arg ''run''],
      Fprintf stderr ''count=%d'' [int_arg 7],
      Fprintf stderr newline [],
      Fflush stderr] \<and>
   level_value (int_level (- 1)) = - 1 \<and>
   uint (debug_level (fresh None 4294967295)) = 4294967295 \<and>
   \<not> writes_to stderr
     (emitted (fresh None 4294967295)
        (fdebuglf debug_build main_42_run (pure (int_level (- 1))) (pure None)
           (pure (''x'', [])) (fresh None 4294967295))) \<and>
   emitted (fresh None 4294967295)
     (fdebuglf debug_build main_42_run (pure (int_level (- 1))) (pure None)
        (pure (''x'', [])) (fresh None 4294967295)) = []"
  using emission_iff_level_within_threshold [where b = debug_build
      and w = "fresh None 3" and cs = main_42_run and L = "int_level 2"
      and f = None and fmt = "''count=%d''" and args = "[int_arg 7]" and s = "''x''"]
    emission_iff_level_within_threshold [where b = debug_build
      and w = "fresh None 4294967295" and cs = main_42_run and L = "int_level (- 1)"
      and f = None and fmt = "''x''" and args = "[]" and s = "''x''"]
  by (simp add: debug_build_def fresh_def DEBUG_CHECK_FILE_NULL LINE_LOCATION_def
      main_42_run_def debug_quote.simps digit_char_def)

subsection \<open>The shape of an emitted line\<close>

text \<open>
  Claim C3. Every emitted line is to read
  \<^verbatim>\<open><file> <line> <function>: <message>\<close> followed by a newline. The macros paste
  \<^verbatim>\<open>__FILE__\<close> into the format string of \<^verbatim>\<open>fprintf\<close> instead of passing it as an
  argument, so a \<^verbatim>\<open>%\<close> in the file name is read as a conversion. For the source file
  \<^verbatim>\<open>a%%b.c\<close>, the call \<^verbatim>\<open>debug("hi")\<close> on line 42 of function \<^verbatim>\<open>run\<close> writes
  \<^verbatim>\<open>a%b.c 42 run: hi\<close>, which is not the line the claim describes. (For file names
  without \<^verbatim>\<open>%\<close> the shape holds: \<open>line_shape_without_percent\<close>.)
\<close>

theorem percent_in_file_name_alters_line:
  "stream_text stderr
     (trace (debug debug_build \<lparr>src_FILE = ''a%%b.c'', src_LINE = 42, FUNCTION = ''run''\<rparr>
               (pure ''hi'') (fresh None 1)))
   = Some (''a%b.c 42 run: hi'' @ newline) \<and>
   stream_text stderr
     (trace (debug debug_build \<lparr>src_FILE = ''a%%b.c'', src_LINE = 42, FUNCTION = ''run''\<rparr>
               (pure ''hi'') (fresh None 1)))
   \<noteq> Some (''a%%b.c'' @ '' '' @ ''42'' @ '' '' @ ''run'' @ '': '' @ ''hi'' @ newline)"
  by (simp add: run_defs)

subsection \<open>Where a line goes\<close>

text \<open>
  Claim C4, as the specification states it, resolves a null explicit destination to the
  process-wide default \<^verbatim>\<open>debug_stream\<close>. The code does not: with
  \<^verbatim>\<open>debug_stream\<close> set to stream 3, \<^verbatim>\<open>fdebug(NULL, "hi")\<close> writes to
  \<^verbatim>\<open>stderr\<close> and stream 3 receives nothing.
\<close>

theorem null_destination_bypasses_debug_stream:
  "spec_resolve None (debug_stream (fresh (Some (Stream 3)) 1)) = Stream 3 \<and>
   stream_text (Stream 3)
     (trace (fdebug debug_build main_42_run (pure None) (pure ''hi'')
               (fresh (Some (Stream 3)) 1))) = Some [] \<and>
   stream_text stderr
     (trace (fdebug debug_build main_42_run (pure None) (pure ''hi'')
               (fresh (Some (Stream 3)) 1))) = Some (''main 42 run: hi'' @ newline)"
  by (simp add: run_defs spec_resolve_def)

text \<open>
  Claim C4, amended. In enabled mode a non-null explicit destination receives every
  library call of the emission, and a null explicit destination resolves to
  \<^verbatim>\<open>stderr\<close>, whatever \<^verbatim>\<open>debug_stream\<close> is. The implicit-destination entry points
  pass the current value of \<^verbatim>\<open>debug_stream\<close> as the destination: each behaves exactly
  as the corresponding explicit-destination call given that value, or given the stream it
  resolves to (\<^verbatim>\<open>debug_stream\<close> if non-null, else \<^verbatim>\<open>stderr\<close>).
\<close>

theorem destination_is_explicit_or_stderr:
  assumes "DEBUG b" and "DEBUG_CHECK_LEVEL L (debug_level w)"
  shows
   "set (map io_stream (emitted w (fdebugl cs (pure L) (pure (Some d)) (pure s) w))) = {d} \<and>
    set (map io_stream
      (emitted w (fdebuglf b cs (pure L) (pure (Some d)) (pure (fmt, args)) w))) = {d} \<and>
    set (map io_stream (emitted w (fdebugl cs (pure L) (pure None) (pure s) w))) = {stderr} \<and>
    set (map io_stream
      (emitted w (fdebuglf b cs (pure L) (pure None) (pure (fmt, args)) w))) = {stderr} \<and>
    debug b cs str w = fdebug b cs (pure (debug_stream w)) str w \<and>
    debugl b cs (pure L) str w = fdebugl cs (pure L) (pure (debug_stream w)) str w \<and>
    debugf b cs va w = fdebugf b cs (pure (debug_stream w)) va w \<and>
    debuglf b cs (pure L) va w = fdebuglf b cs (pure L) (pure (debug_stream w)) va w \<and>
    debug b cs str w = fdebug b cs (pure (Some (DEBUG_CHECK_FILE (debug_stream w)))) str w \<and>
    debugl b cs (pure L) str w =
      fdebugl cs (pure L) (pure (Some (DEBUG_CHECK_FILE (debug_stream w)))) str w \<and>
    debugf b cs va w = fdebugf b cs (pure (Some (DEBUG_CHECK_FILE (debug_stream w)))) va w \<and>
    debuglf b cs (pure L) va w =
      fdebuglf b cs (pure L) (pure (Some (DEBUG_CHECK_FILE (debug_stream w)))) va w"
  using assms
  by (simp add: macro_defs fdebugl_resolved fdebuglf_resolved fdebugl_read_debug_stream
      fdebuglf_read_debug_stream fdebugl_pure fdebuglf_pure emitted_append
      DEBUG_CHECK_FILE_Some DEBUG_CHECK_FILE_NULL)

theorem destination_is_explicit_or_stderr_witness:
  "DEBUG debug_build \<and>
   DEBUG_CHECK_LEVEL (int_level 1) (debug_level (fresh (Some (Stream 3)) 1)) \<and>
   emitted (fresh (Some (Stream 3)) 1)
     (fdebugl main_42_run (pure (int_level 1)) (pure (Some (Stream 7))) (pure ''hi'')
        (fresh (Some (Stream 3)) 1)) =
     [Fprintf (Stream 7) (''main 42 %s: %s'' @ newline) [string_arg ''run'', string_arg ''hi''],
      Fflush (Stream 7)] \<and>
   stream_text (Stream 3)
     (trace (debug debug_build main_42_run (pure ''hi'') (fresh (Some (Stream 3)) 1))) =
     Some (''main 42 run: hi'' @ newline)"
  using destination_is_explicit_or_stderr [of debug_build "int_level 1"
      "fresh (Some (Stream 3)) 1" main_42_run "Stream 7" "''hi''" "''%s''" "[]"
      "pure ''hi''" "pure (''%s'', [])"]
  by (simp add: run_defs)

subsection \<open>One canonical emission\<close>

text \<open>
  Claim C5. In enabled mode \<^verbatim>\<open>debug\<close>, \<^verbatim>\<open>fdebug\<close> and \<^verbatim>\<open>debugl\<close> are
  \<^verbatim>\<open>fdebugl\<close>, and \<^verbatim>\<open>debugf\<close>, \<^verbatim>\<open>fdebugf\<close> and \<^verbatim>\<open>debuglf\<close> are
  \<^verbatim>\<open>fdebuglf\<close>, with level 1 and \<^verbatim>\<open>debug_stream\<close> filled in for the missing
  arguments. The canonical macros evaluate the level and check the gate first: when it
  fails, the state is the one left by the level expression; when it passes, the
  destination is evaluated and resolved next and the payload is evaluated and written
  last.
\<close>

theorem entry_points_reduce_to_canonical_emission:
  assumes "DEBUG b"
  shows "debug b cs str w = fdebugl cs (pure (int_level 1)) read_debug_stream str w \<and>
         fdebug b cs file str w = fdebugl cs (pure (int_level 1)) file str w \<and>
         debugl b cs level str w = fdebugl cs level read_debug_stream str w \<and>
         debugf b cs va w = fdebuglf b cs (pure (int_level 1)) read_debug_stream va w \<and>
         fdebugf b cs file va w = fdebuglf b cs (pure (int_level 1)) file va w \<and>
         debuglf b cs level va w = fdebuglf b cs level read_debug_stream va w \<and>
         (\<not> DEBUG_CHECK_LEVEL (fst (level w)) (debug_level (snd (level w))) \<longrightarrow>
            fdebugl cs level file str w = snd (level w) \<and>
            fdebuglf b cs level file va w = snd (level w)) \<and>
         (DEBUG_CHECK_LEVEL (fst (level w)) (debug_level (snd (level w))) \<longrightarrow>
            fdebugl cs level file str w =
              (let (f, w2) = file (snd (level w));
                   (s, w3) = str w2
               in fflush (DEBUG_CHECK_FILE f)
                    (fprintf (DEBUG_CHECK_FILE f) (LINE_LOCATION cs @ ''%s: %s'' @ newline)
                       [string_arg (FUNCTION cs), string_arg s] w3)) \<and>
            fdebuglf b cs level file va w =
              (let (f, w2) = file (snd (level w));
                   ((fmt, args), w4) =
                      va (fprintf (DEBUG_CHECK_FILE f) (LINE_LOCATION cs @ ''%s: '')
                            [string_arg (FUNCTION cs)] w2)
               in fflush (DEBUG_CHECK_FILE f)
                    (fprintf (DEBUG_CHECK_FILE f) newline []
                       (fprintf (DEBUG_CHECK_FILE f) fmt args w4))))"
  using assms
  by (simp add: macro_defs fdebugl_def fdebuglf_def Let_def split_def DEBUG_CHECK_FILE_Some)

theorem entry_points_reduce_to_canonical_emission_witness:
  "DEBUG debug_build \<and>
   debuglf debug_build main_42_run (counting (int_level 2)) (counting (''x'', [])) (fresh None 1)
     = (fresh None 1)\<lparr>user := 1\<rparr> \<and>
   fdebug debug_build main_42_run (counting None) (counting ''x'') (fresh None 1)
     = (fresh None 1)\<lparr>user := 2, trace :=
          [Fprintf stderr (''main 42 %s: %s'' @ newline) [string_arg ''run'', string_arg ''x''],
           Fflush stderr]\<rparr>"
  using entry_points_reduce_to_canonical_emission [of debug_build main_42_run "counting ''x''"
      "fresh None 1" "counting None" "counting (int_level 2)" "counting (''x'', [])"]
  by (simp add: macro_defs debug_build_def fresh_def counting_def pure_def
      read_debug_stream_def fdebugl_def fdebuglf_def fprintf_def fflush_def
      DEBUG_CHECK_FILE_def DEBUG_DEFAULT_STREAM_def LINE_LOCATION_def main_42_run_def
      debug_quote.simps digit_char_def word_sless_alt word_le_def)

subsection \<open>Flushing\<close>

text \<open>
  Claim C6. In enabled mode, when the level passes the gate, the last library call of
  \<^verbatim>\<open>fdebugl\<close> and of \<^verbatim>\<open>fdebuglf\<close> is the flush of the resolved destination, made
  directly after the line is written; on return the destination holds no unflushed text.
\<close>

theorem emission_ends_with_flush_of_destination:
  assumes "DEBUG b" and "level w = (l, w1)"
    and "0 < level_value l \<and> level_value l \<le> uint (debug_level w1)"
    and "file w1 = (f, w2)"
  shows "trace (fdebugl cs level file str w) \<noteq> [] \<and>
         last (trace (fdebugl cs level file str w)) = Fflush (DEBUG_CHECK_FILE f) \<and>
         \<not> unflushed (DEBUG_CHECK_FILE f) (trace (fdebugl cs level file str w)) \<and>
         trace (fdebuglf b cs level file va w) \<noteq> [] \<and>
         last (trace (fdebuglf b cs level file va w)) = Fflush (DEBUG_CHECK_FILE f) \<and>
         \<not> unflushed (DEBUG_CHECK_FILE f) (trace (fdebuglf b cs level file va w)) \<and>
         emitted w2 (fdebugl cs level file (pure s) w) =
           [Fprintf (DEBUG_CHECK_FILE f) (LINE_LOCATION cs @ ''%s: %s'' @ newline)
              [string_arg (FUNCTION cs), string_arg s],
            Fflush (DEBUG_CHECK_FILE f)] \<and>
         emitted w2 (fdebuglf b cs level file (pure (fmt, args)) w) =
           [Fprintf (DEBUG_CHECK_FILE f) (LINE_LOCATION cs @ ''%s: '')
              [string_arg (FUNCTION cs)],
            Fprintf (DEBUG_CHECK_FILE f) fmt args,
            Fprintf (DEBUG_CHECK_FILE f) newline [],
            Fflush (DEBUG_CHECK_FILE f)]"
proof -
  from assms(3) have g: "DEBUG_CHECK_LEVEL l (debug_level w1)"
    by (simp add: gate_iff)
  have 1: "\<exists>es. trace (fdebugl cs level file str w) = es @ [Fflush (DEBUG_CHECK_FILE f)]"
    using assms(2,4) g
    by (simp add: fdebugl_def fprintf_def fflush_def Let_def split_def DEBUG_CHECK_FILE_Some)
  have 2: "\<exists>es. trace (fdebuglf b cs level file va w) = es @ [Fflush (DEBUG_CHECK_FILE f)]"
    using assms(1,2,4) g
    by (simp add: fdebuglf_def fprintf_def fflush_def Let_def split_def)
  have 3: "emitted w2 (fdebugl cs level file (pure s) w) =
           [Fprintf (DEBUG_CHECK_FILE f) (LINE_LOCATION cs @ ''%s: %s'' @ newline)
              [string_arg (FUNCTION cs), string_arg s],
            Fflush (DEBUG_CHECK_FILE f)]"
    using assms(2,4) g
    by (simp add: fdebugl_def fprintf_def fflush_def Let_def pure_def emitted_def
        DEBUG_CHECK_FILE_Some)
  have 4: "emitted w2 (fdebuglf b cs level file (pure (fmt, args)) w) =
           [Fprintf (DEBUG_CHECK_FILE f) (LINE_LOCATION cs @ ''%s: '')
              [string_arg (FUNCTION cs)],
            Fprintf (DEBUG_CHECK_FILE f) fmt args,
            Fprintf (DEBUG_CHECK_FILE f) newline [],
            Fflush (DEBUG_CHECK_FILE f)]"
    using assms(1,2,4) g
    by (simp add: fdebuglf_def fprintf_def fflush_def Let_def pure_def emitted_def)
  from 1 2 3 4 show ?thesis
    by (auto simp: unflushed_after_flush)
qed

theorem emission_ends_with_flush_of_destination_witness:
  "DEBUG debug_build \<and>
   counting (int_level 1) (fresh None 1) = (int_level 1, (fresh None 1)\<lparr>user := 1\<rparr>) \<and>
   (0 < level_value (int_level 1) \<and>
    level_value (int_level 1) \<le> uint (debug_level ((fresh None 1)\<lparr>user := 1\<rparr>))) \<and>
   counting (Some (Stream 3)) ((fresh None 1)\<lparr>user := 1\<rparr>) =
     (Some (Stream 3), (fresh None 1)\<lparr>user := 2\<rparr>) \<and>
   trace (fdebugl main_42_run (counting (int_level 1)) (counting (Some (Stream 3)))
            (counting ''hello'') (fresh None 1)) =
     [Fprintf (Stream 3) (''main 42 %s: %s'' @ newline)
        [string_arg ''run'', string_arg ''hello''],
      Fflush (Stream 3)] \<and>
   \<not> unflushed (Stream 3)
       (trace (fdebuglf debug_build main_42_run (counting (int_level 1))
          (counting (Some (Stream 3))) (counting (''count=%d'', [int_arg 7])) (fresh None 1)))"
  using emission_ends_with_flush_of_destination [of debug_build "counting (int_level 1)"
      "fresh None 1" "int_level 1" "(fresh None 1)\<lparr>user := 1\<rparr>" "counting (Some (Stream 3))"
      "Some (Stream 3)" "(fresh None 1)\<lparr>user := 2\<rparr>" main_42_run "counting ''hello''"
      "counting (''count=%d'', [int_arg 7])" "''hello''" "''count=%d''" "[int_arg 7]"]
  by (simp add: run_defs unflushed_def)

subsection \<open>Literal and formatted payloads\<close>

text \<open>
  Claim C7, as the specification states it, makes a format with zero arguments behave as
  the literal string of the same text, for every text. It does not when the text contains
  \<^verbatim>\<open>%\<close>: \<^verbatim>\<open>fdebuglf(1, NULL, "100%%")\<close> writes \<^verbatim>\<open>100%\<close> where
  \<^verbatim>\<open>fdebugl(1, NULL, "100%%")\<close> writes \<^verbatim>\<open>100%%\<close>.
\<close>

theorem format_without_arguments_interprets_percent:
  "stream_text stderr
     (trace (fdebuglf debug_build main_42_run (pure (int_level 1)) (pure None)
               (pure (''100%%'', [])) (fresh None 1)))
   = Some (''main 42 run: 100%'' @ newline) \<and>
   stream_text stderr
     (trace (fdebugl main_42_run (pure (int_level 1)) (pure None) (pure ''100%%'')
               (fresh None 1)))
   = Some (''main 42 run: 100%%'' @ newline)"
  by (simp add: run_defs)

text \<open>
  Claim C7, amended. In enabled mode, for every string \<open>X\<close>, the format call with
  template \<^verbatim>\<open>%s\<close> and argument \<open>X\<close> sends to every stream the same bytes as the
  literal call with \<open>X\<close>; for every \<open>X\<close> without \<^verbatim>\<open>%\<close>, so does the format call
  with template \<open>X\<close> and no arguments. When the file name has no \<^verbatim>\<open>%\<close> and the level
  passes, these bytes are the line \<^verbatim>\<open><file> <line> <function>: X\<close> and a newline.
\<close>

theorem format_and_literal_payload_agree:
  assumes "DEBUG b"
  shows "stream_text g (emitted w
           (fdebuglf b cs (pure L) (pure f) (pure (''%s'', [string_arg X])) w)) =
         stream_text g (emitted w (fdebugl cs (pure L) (pure f) (pure X) w)) \<and>
         (CHR ''%'' \<notin> set X \<longrightarrow>
            stream_text g (emitted w (fdebuglf b cs (pure L) (pure f) (pure (X, [])) w)) =
            stream_text g (emitted w (fdebugl cs (pure L) (pure f) (pure X) w))) \<and>
         (CHR ''%'' \<notin> set (src_FILE cs) \<and> DEBUG_CHECK_LEVEL L (debug_level w) \<longrightarrow>
            stream_text (DEBUG_CHECK_FILE f)
              (emitted w (fdebuglf b cs (pure L) (pure f) (pure (''%s'', [string_arg X])) w)) =
            Some (src_FILE cs @ '' '' @ debug_quote (src_LINE cs) @ '' '' @ FUNCTION cs @
                  '': '' @ X @ newline))"
proof -
  have 1: "stream_text g (emitted w
           (fdebuglf b cs (pure L) (pure f) (pure (''%s'', [string_arg X])) w)) =
         stream_text g (emitted w (fdebugl cs (pure L) (pure f) (pure X) w))"
    using assms line_texts_agree [OF printed_percent_s]
    by (simp add: fdebuglf_pure fdebugl_pure emitted_self emitted_append)
  have 2: "stream_text g (emitted w (fdebuglf b cs (pure L) (pure f) (pure (X, [])) w)) =
         stream_text g (emitted w (fdebugl cs (pure L) (pure f) (pure X) w))"
    if "CHR ''%'' \<notin> set X"
    using assms line_texts_agree [OF printed_plain [OF that]]
    by (simp add: fdebuglf_pure fdebugl_pure emitted_self emitted_append)
  have 3: "stream_text (DEBUG_CHECK_FILE f)
              (emitted w (fdebuglf b cs (pure L) (pure f) (pure (''%s'', [string_arg X])) w)) =
            Some (src_FILE cs @ '' '' @ debug_quote (src_LINE cs) @ '' '' @ FUNCTION cs @
                  '': '' @ X @ newline)"
    if "CHR ''%'' \<notin> set (src_FILE cs)" and "DEBUG_CHECK_LEVEL L (debug_level w)"
    using assms that(2)
    by (simp add: fdebuglf_pure emitted_append stream_text_fdebuglf_events
        fdebuglf_prefix_shape [OF that(1)] printed_percent_s printed_newline)
  from 1 2 3 show ?thesis
    by blast
qed

theorem format_and_literal_payload_agree_witness:
  "DEBUG debug_build \<and> CHR ''%'' \<notin> set ''hello'' \<and>
   CHR ''%'' \<notin> set (src_FILE main_42_run) \<and>
   DEBUG_CHECK_LEVEL (int_level 1) (debug_level (fresh None 1)) \<and>
   stream_text stderr (emitted (fresh None 1)
     (fdebuglf debug_build main_42_run (pure (int_level 1)) (pure None)
        (pure (''hello'', [])) (fresh None 1))) = Some (''main 42 run: hello'' @ newline) \<and>
   stream_text stderr (emitted (fresh None 1)
     (fdebugl main_42_run (pure (int_level 1)) (pure None) (pure ''hello'') (fresh None 1)))
     = Some (''main 42 run: hello'' @ newline)"
  using format_and_literal_payload_agree [of debug_build stderr "fresh None 1" main_42_run
      "int_level 1" None "''hello''"]
  by (simp add: run_defs)

subsection \<open>Process start\<close>

text \<open>
  Claim C8. At process start \<^verbatim>\<open>debug_level\<close> is 1, or the build's
  \<^verbatim>\<open>DEBUG_LEVEL\<close> converted to \<^verbatim>\<open>unsigned int\<close>; its value is never negative; and
  the destination of the implicit-destination entry points resolves to \<^verbatim>\<open>stderr\<close>,
  so every library call they make then addresses \<^verbatim>\<open>stderr\<close>.
\<close>

theorem process_start_configuration:
  "(DEBUG_LEVEL b = None \<longrightarrow> debug_level (process_start b u) = 1) \<and>
   (DEBUG_LEVEL b = Some n \<longrightarrow>
      debug_level (process_start b u) = word_of_int n \<and>
      uint (debug_level (process_start b u)) = n mod 2 ^ 32) \<and>
   0 \<le> uint (debug_level (w :: 'u world)) \<and>
   DEBUG_CHECK_FILE (fst (read_debug_stream (process_start b u))) = stderr \<and>
   set (map io_stream (emitted (process_start b u)
          (debug b cs (pure s) (process_start b u)))) \<subseteq> {stderr} \<and>
   set (map io_stream (emitted (process_start b u)
          (debugl b cs (pure L) (pure s) (process_start b u)))) \<subseteq> {stderr} \<and>
   set (map io_stream (emitted (process_start b u)
          (debugf b cs (pure (fmt, args)) (process_start b u)))) \<subseteq> {stderr} \<and>
   set (map io_stream (emitted (process_start b u)
          (debuglf b cs (pure L) (pure (fmt, args)) (process_start b u)))) \<subseteq> {stderr} \<and>
   (DEBUG b \<and> DEBUG_LEVEL b = None \<longrightarrow>
      emitted (process_start b u) (debug b cs (pure s) (process_start b u)) =
        [Fprintf stderr (LINE_LOCATION cs @ ''%s: %s'' @ newline)
           [string_arg (FUNCTION cs), string_arg s],
         Fflush stderr])"
proof -
  have ds: "debug_stream (process_start b u) = None"
    by (simp add: process_start_def)
  have lv: "(DEBUG_LEVEL b = None \<longrightarrow> debug_level (process_start b u) = 1) \<and>
     (DEBUG_LEVEL b = Some n \<longrightarrow>
        debug_level (process_start b u) = word_of_int n \<and>
        uint (debug_level (process_start b u)) = n mod 2 ^ 32)"
    by (simp add: process_start_def uint_word_of_int take_bit_eq_mod)
  have nn: "0 \<le> uint (debug_level w)"
    by simp
  have tg: "DEBUG_CHECK_FILE (fst (read_debug_stream (process_start b u))) = stderr"
    by (simp add: read_debug_stream_apply ds DEBUG_CHECK_FILE_NULL)
  have em: "set (map io_stream (emitted (process_start b u)
          (debug b cs (pure s) (process_start b u)))) \<subseteq> {stderr} \<and>
   set (map io_stream (emitted (process_start b u)
          (debugl b cs (pure L) (pure s) (process_start b u)))) \<subseteq> {stderr} \<and>
   set (map io_stream (emitted (process_start b u)
          (debugf b cs (pure (fmt, args)) (process_start b u)))) \<subseteq> {stderr} \<and>
   set (map io_stream (emitted (process_start b u)
          (debuglf b cs (pure L) (pure (fmt, args)) (process_start b u)))) \<subseteq> {stderr}"
    by (simp add: macro_defs fdebugl_read_debug_stream fdebuglf_read_debug_stream
        fdebugl_pure fdebuglf_pure emitted_self emitted_append ds DEBUG_CHECK_FILE_NULL)
  have ex: "emitted (process_start b u) (debug b cs (pure s) (process_start b u)) =
        [Fprintf stderr (LINE_LOCATION cs @ ''%s: %s'' @ newline)
           [string_arg (FUNCTION cs), string_arg s],
         Fflush stderr]"
    if "DEBUG b" and "DEBUG_LEVEL b = None"
  proof -
    from that(2) have "debug_level (process_start b u) = 1"
      by (simp add: process_start_def)
    then have "DEBUG_CHECK_LEVEL (int_level 1) (debug_level (process_start b u))"
      by (simp add: gate_iff)
    with that(1) show ?thesis
      by (simp add: macro_defs fdebugl_read_debug_stream fdebugl_pure emitted_append ds
          DEBUG_CHECK_FILE_NULL)
  qed
  from lv nn tg em ex show ?thesis
    by blast
qed

theorem process_start_configuration_witness:
  "DEBUG debug_build \<and> DEBUG_LEVEL debug_build = None \<and>
   debug_level (process_start debug_build (0::nat)) = 1 \<and>
   DEBUG_LEVEL (debug_build\<lparr>DEBUG_LEVEL := Some 3\<rparr>) = Some 3 \<and>
   uint (debug_level (process_start (debug_build\<lparr>DEBUG_LEVEL := Some 3\<rparr>) (0::nat))) = 3 \<and>
   trace (debug debug_build main_42_run (pure ''hello'') (process_start debug_build (0::nat))) =
     [Fprintf stderr (''main 42 %s: %s'' @ newline) [string_arg ''run'', string_arg ''hello''],
      Fflush stderr] \<and>
   stream_text stderr
     (trace (debug debug_build main_42_run (pure ''hello'') (process_start debug_build (0::nat))))
     = Some (''main 42 run: hello'' @ newline)"
  using process_start_configuration [where b = debug_build and n = 3 and u = "0::nat"
      and w = "fresh None 1" and cs = main_42_run and s = "''hello''"]
    process_start_configuration [where b = "debug_build\<lparr>DEBUG_LEVEL := Some 3\<rparr>"
      and n = 3 and u = "0::nat" and w = "fresh None 1" and cs = main_42_run
      and s = "''hello''"]
  by (simp add: run_defs process_start_def)

subsection \<open>Suppressed calls\<close>

text \<open>
  Claim C9. In enabled mode, when the level is not positive or exceeds the threshold,
  the call returns the state left by evaluating the level expression: it makes no
  library call, reports nothing, and evaluates neither the destination nor the payload
  expression. With threshold 0 this holds for the entry points of fixed level 1.
\<close>

theorem suppressed_call_evaluates_level_only:
  assumes "DEBUG b" and "level w = (l, w1)"
    and "\<not> (0 < level_value l \<and> level_value l \<le> uint (debug_level w1))"
  shows "fdebuglf b cs level file va w = w1 \<and> fdebugl cs level file str w = w1 \<and>
         debuglf b cs level va w = w1 \<and> debugl b cs level str w = w1 \<and>
         (level = pure l \<longrightarrow> w1 = w \<and>
            emitted w (fdebuglf b cs level file va w) = [] \<and>
            emitted w (fdebugl cs level file str w) = []) \<and>
         (debug_level w = 0 \<longrightarrow>
            debug b cs str w = w \<and> fdebug b cs file str w = w \<and>
            debugf b cs va w = w \<and> fdebugf b cs file va w = w)"
proof -
  from assms(3) have g: "\<not> DEBUG_CHECK_LEVEL l (debug_level w1)"
    by (simp add: gate_iff)
  have canon: "fdebuglf b cs level file va w = w1 \<and> fdebugl cs level file str w = w1"
    using assms(1,2) g by (simp add: fdebugl_suppressed fdebuglf_suppressed)
  have wrap: "debuglf b cs level va w = w1 \<and> debugl b cs level str w = w1"
    using assms(1,2) g by (simp add: macro_defs fdebugl_suppressed fdebuglf_suppressed)
  have quiet: "w1 = w \<and> emitted w (fdebuglf b cs level file va w) = [] \<and>
      emitted w (fdebugl cs level file str w) = []" if "level = pure l"
    using that assms(2) canon by (simp add: pure_def emitted_self)
  have fixed: "debug b cs str w = w \<and> fdebug b cs file str w = w \<and>
      debugf b cs va w = w \<and> fdebugf b cs file va w = w" if "debug_level w = 0"
  proof -
    from that have "\<not> DEBUG_CHECK_LEVEL (int_level 1) (debug_level w)"
      by (simp add: gate_iff)
    with assms(1) show ?thesis
      by (simp add: macro_defs fdebugl_suppressed [OF pure_apply]
          fdebuglf_suppressed [OF _ pure_apply])
  qed
  from canon wrap quiet fixed show ?thesis
    by blast
qed

theorem suppressed_call_evaluates_level_only_witness:
  "DEBUG debug_build \<and>
   counting (int_level 5) (fresh None 2) = (int_level 5, (fresh None 2)\<lparr>user := 1\<rparr>) \<and>
   \<not> (0 < level_value (int_level 5) \<and>
      level_value (int_level 5) \<le> uint (debug_level ((fresh None 2)\<lparr>user := 1\<rparr>))) \<and>
   fdebuglf debug_build main_42_run (counting (int_level 5)) (counting None)
     (counting (''count=%d'', [int_arg 7])) (fresh None 2) = (fresh None 2)\<lparr>user := 1\<rparr>"
  using suppressed_call_evaluates_level_only [where b = debug_build
      and level = "counting (int_level 5)" and w = "fresh None 2" and l = "int_level 5"
      and ?w1.0 = "(fresh None 2)\<lparr>user := 1\<rparr>" and cs = main_42_run
      and ?file = "counting None" and va = "counting (''count=%d'', [int_arg 7])"
      and str = "counting ''x''"]
  by (simp add: debug_build_def fresh_def counting_def)

subsection \<open>The configuration is only read\<close>




end
